theory Spec2Isabelle
  imports Complex_Main
begin

section \<open>Values, Go maps and outcomes\<close>

text \<open>
  The program of \<^verbatim>\<open>main.go\<close> is an HTTP front-end over one MongoDB collection. Its
  request bodies, stored documents and response envelopes are all values of the Go type
  \<^verbatim>\<open>map[string]any\<close>. The dynamic values held by such a map are modelled by \<open>json\<close>:
  \<open>JFloat\<close> is a \<^verbatim>\<open>float64\<close> (what \<^verbatim>\<open>encoding/json\<close> decodes a number to), given by its
  value, \<open>JInt\<close> is a Go \<^verbatim>\<open>int\<close> (what \<^verbatim>\<open>makeResponse\<close> stores under \<^verbatim>\<open>"status"\<close>), and
  \<open>JObjectID\<close> is a \<^verbatim>\<open>bson.ObjectID\<close> (what the store gives a document as its \<^verbatim>\<open>_id\<close>).
  A non-nil map is a partial function from keys to values; a possibly nil map is an
  \<open>option\<close> of it, \<open>None\<close> being \<^verbatim>\<open>nil\<close>.
\<close>

datatype json =
    JNull
  | JBool bool
  | JFloat rat
  | JInt int
  | JStr string
  | JObjectID string
  | JArr "json list"
  | JObj "(string \<times> json) list"

type_synonym gomap = "string \<rightharpoonup> json"

text \<open>
  A Go function either returns or panics. \<^verbatim>\<open>log.Panic(msg)\<close> panics with \<open>msg\<close>; a write
  to an entry of a nil map panics with the runtime's message. \<^verbatim>\<open>net/http\<close> recovers a
  handler's panic by dropping the connection, so a panicking request produces no
  response.
\<close>

datatype 'a outcome = Done 'a | Panic string

definition nil_map_panic :: string where
  "nil_map_panic = ''assignment to entry in nil map''"

section \<open>The collection and the platform\<close>

text \<open>
  The MongoDB driver, \<^verbatim>\<open>encoding/json\<close> and \<^verbatim>\<open>net/http\<close> are libraries the program calls;
  their code is not part of the repository. The collection is modelled as the list of
  its documents, in the order the store scans them, together with the log of the driver
  calls made on it. A filter \<^verbatim>\<open>bson.D{{Key: "path", Value: path}}\<close> selects the documents
  whose \<^verbatim>\<open>path\<close> field is the string \<open>path\<close>, and every one-document call acts on the
  first of them. A call that returns an error writes nothing. The matching of a string
  against an array-valued field is not modelled.

  Every stored document has an \<^verbatim>\<open>_id\<close> field, which the store keeps unique and never
  changes: \<^verbatim>\<open>InsertOne\<close> gives a document that has none a new \<^verbatim>\<open>ObjectID\<close>, and refuses a
  document whose \<^verbatim>\<open>_id\<close> another document has; \<^verbatim>\<open>ReplaceOne\<close> keeps the \<^verbatim>\<open>_id\<close> of the
  document it replaces, and refuses a replacement that has another \<^verbatim>\<open>_id\<close>.
\<close>

datatype call =
    FindOne string
  | InsertOne gomap
  | ReplaceOne string gomap
  | UpdateOne string gomap
  | DeleteOne string

record store =
  docs :: "gomap list"
  calls :: "call list"

text \<open>
  What the libraries decide is a parameter of the model:
  \<^item> \<open>unmarshal\<close> is \<^verbatim>\<open>json.Unmarshal\<close> into a freshly made \<^verbatim>\<open>map[string]any\<close>: the error
    text, or the map afterwards, which is the map it filled, or \<^verbatim>\<open>nil\<close> when the text is
    the literal \<^verbatim>\<open>null\<close>;
  \<^item> \<open>driver_err\<close> is the error a driver call returns on a collection with the given
    documents, if it returns one (a time-out, a lost connection, a rejected update
    document), other than \<^verbatim>\<open>mongo.ErrNoDocuments\<close> and the write errors on \<^verbatim>\<open>_id\<close>;
  \<^item> \<open>write_err\<close> is the text of the write error for a call that the rules on \<^verbatim>\<open>_id\<close>
    refuse;
  \<^item> \<open>fresh_id\<close> is the \<^verbatim>\<open>ObjectID\<close> made for a document inserted without \<^verbatim>\<open>_id\<close>;
  \<^item> \<open>apply_update\<close> is what an accepted update document does to the matched document;
  \<^item> \<open>decode_err\<close> is the error of \<^verbatim>\<open>SingleResult.Decode\<close> on a found document, if any;
  \<^item> \<open>marshal_err\<close> is the error of \<^verbatim>\<open>json.Marshal\<close> on a response body, if any.
\<close>

record platform =
  unmarshal :: "string \<Rightarrow> string + gomap option"
  driver_err :: "call \<Rightarrow> gomap list \<Rightarrow> string option"
  write_err :: "call \<Rightarrow> string"
  fresh_id :: "gomap list \<Rightarrow> string"
  apply_update :: "gomap \<Rightarrow> gomap \<Rightarrow> gomap"
  decode_err :: "gomap \<Rightarrow> string option"
  marshal_err :: "gomap \<Rightarrow> string option"

datatype find_error = ErrNoDocuments | FindFailed string

definition has_path :: "string \<Rightarrow> gomap \<Rightarrow> bool" where
  "has_path path d = (d ''path'' = Some (JStr path))"

fun replace_first :: "('a \<Rightarrow> bool) \<Rightarrow> ('a \<Rightarrow> 'a) \<Rightarrow> 'a list \<Rightarrow> 'a list" where
  "replace_first Q f [] = []"
| "replace_first Q f (x # xs) = (if Q x then f x # xs else x # replace_first Q f xs)"

fun remove_first :: "('a \<Rightarrow> bool) \<Rightarrow> 'a list \<Rightarrow> 'a list" where
  "remove_first Q [] = []"
| "remove_first Q (x # xs) = (if Q x then xs else x # remove_first Q xs)"

definition id_taken :: "gomap \<Rightarrow> gomap list \<Rightarrow> bool" where
  "id_taken d ds = (d ''_id'' \<noteq> None \<and> list_ex (\<lambda>x. x ''_id'' = d ''_id'') ds)"

definition id_changed :: "gomap \<Rightarrow> gomap \<Rightarrow> bool" where
  "id_changed old d = (d ''_id'' \<noteq> None \<and> d ''_id'' \<noteq> old ''_id'')"

definition assign_id :: "platform \<Rightarrow> gomap list \<Rightarrow> gomap \<Rightarrow> gomap" where
  "assign_id P ds d =
     (if d ''_id'' = None then d(''_id'' \<mapsto> JObjectID (fresh_id P ds)) else d)"

definition keep_id :: "gomap \<Rightarrow> gomap \<Rightarrow> gomap" where
  "keep_id d old = d(''_id'' := old ''_id'')"

definition logged :: "call \<Rightarrow> store \<Rightarrow> store" where
  "logged c s = s\<lparr>calls := calls s @ [c]\<rparr>"

definition coll_FindOne :: "platform \<Rightarrow> string \<Rightarrow> store \<Rightarrow> (find_error + gomap) \<times> store" where
  "coll_FindOne P path s =
     (case driver_err P (FindOne path) (docs s) of
        Some e \<Rightarrow> (Inl (FindFailed e), logged (FindOne path) s)
      | None \<Rightarrow>
          (case find (has_path path) (docs s) of
             None \<Rightarrow> (Inl ErrNoDocuments, logged (FindOne path) s)
           | Some d \<Rightarrow> (Inr d, logged (FindOne path) s)))"

definition coll_InsertOne :: "platform \<Rightarrow> gomap \<Rightarrow> store \<Rightarrow> (string + unit) \<times> store" where
  "coll_InsertOne P d s =
     (case driver_err P (InsertOne d) (docs s) of
        Some e \<Rightarrow> (Inl e, logged (InsertOne d) s)
      | None \<Rightarrow>
          (if id_taken d (docs s) then (Inl (write_err P (InsertOne d)), logged (InsertOne d) s)
           else (Inr (), logged (InsertOne d) (s\<lparr>docs := docs s @ [assign_id P (docs s) d]\<rparr>))))"

definition coll_ReplaceOne :: "platform \<Rightarrow> string \<Rightarrow> gomap \<Rightarrow> store \<Rightarrow> (string + unit) \<times> store" where
  "coll_ReplaceOne P path d s =
     (case driver_err P (ReplaceOne path d) (docs s) of
        Some e \<Rightarrow> (Inl e, logged (ReplaceOne path d) s)
      | None \<Rightarrow>
          (case find (has_path path) (docs s) of
             None \<Rightarrow> (Inr (), logged (ReplaceOne path d) s)
           | Some old \<Rightarrow>
               (if id_changed old d then
                  (Inl (write_err P (ReplaceOne path d)), logged (ReplaceOne path d) s)
                else
                  (Inr (), logged (ReplaceOne path d)
                     (s\<lparr>docs := replace_first (has_path path) (keep_id d) (docs s)\<rparr>)))))"

definition coll_UpdateOne :: "platform \<Rightarrow> string \<Rightarrow> gomap \<Rightarrow> store \<Rightarrow> (string + unit) \<times> store" where
  "coll_UpdateOne P path u s =
     (case driver_err P (UpdateOne path u) (docs s) of
        Some e \<Rightarrow> (Inl e, logged (UpdateOne path u) s)
      | None \<Rightarrow>
          (Inr (), logged (UpdateOne path u)
             (s\<lparr>docs := replace_first (has_path path) (\<lambda>old. apply_update P old u) (docs s)\<rparr>)))"

text \<open>\<^verbatim>\<open>DeleteOne\<close> answers with the number of documents it removed, 0 or 1.\<close>

definition coll_DeleteOne :: "platform \<Rightarrow> string \<Rightarrow> store \<Rightarrow> (string + int) \<times> store" where
  "coll_DeleteOne P path s =
     (case driver_err P (DeleteOne path) (docs s) of
        Some e \<Rightarrow> (Inl e, logged (DeleteOne path) s)
      | None \<Rightarrow>
          (Inr (if find (has_path path) (docs s) = None then 0 else 1),
           logged (DeleteOne path) (s\<lparr>docs := remove_first (has_path path) (docs s)\<rparr>)))"

section \<open>Decimal formatting\<close>

text \<open>\<^verbatim>\<open>fmt.Sprintf("%d", n)\<close>: the decimal digits of \<open>n\<close>, after a minus sign when negative.\<close>

definition digit :: "nat \<Rightarrow> char" where
  "digit n = ''0123456789'' ! (n mod 10)"

function show_nat :: "nat \<Rightarrow> string" where
  "show_nat n = (if n < 10 then [digit n] else show_nat (n div 10) @ [digit n])"
  by pat_completeness auto
termination
  by (relation "measure id") auto

definition sprintf_d :: "int \<Rightarrow> string" where
  "sprintf_d i = (if i < 0 then CHR ''-'' # show_nat (nat (- i)) else show_nat (nat i))"

section \<open>The functions of main.go\<close>

definition StatusOK :: int where "StatusOK = 200"
definition StatusBadRequest :: int where "StatusBadRequest = 400"
definition StatusNotFound :: int where "StatusNotFound = 404"

definition makeResponse :: "string \<Rightarrow> int \<Rightarrow> gomap \<times> int" where
  "makeResponse err code = (Map.empty(''message'' \<mapsto> JStr err, ''status'' \<mapsto> JInt code), code)"

text \<open>
  \<^verbatim>\<open>jsonToMap\<close> and \<^verbatim>\<open>readBody\<close> return Go's pair of a map and an error; the error is
  \<open>None\<close> for \<^verbatim>\<open>nil\<close>.
\<close>

definition jsonToMap :: "platform \<Rightarrow> string \<Rightarrow> gomap option \<times> string option" where
  "jsonToMap P jsonString =
     (case unmarshal P jsonString of
        Inl err \<Rightarrow> (None, Some err)
      | Inr result \<Rightarrow> (result, None))"

text \<open>
  A request, as far as the handler reads it: the method, the request URI, and what
  \<^verbatim>\<open>io.ReadAll(req.Body)\<close> gives, the read error or the bytes.
\<close>

record request =
  req_method :: string
  req_uri :: string
  req_body :: "string + string"

definition readBody :: "platform \<Rightarrow> request \<Rightarrow> (gomap option \<times> string option) outcome" where
  "readBody P req =
     (case req_body req of
        Inl err \<Rightarrow> Panic err
      | Inr body \<Rightarrow> Done (if length body \<noteq> 0 then jsonToMap P body else (None, None)))"

definition getSR :: "platform \<Rightarrow> string \<Rightarrow> store \<Rightarrow> gomap option outcome \<times> store" where
  "getSR P path s =
     (case coll_FindOne P path s of
        (Inl ErrNoDocuments, s') \<Rightarrow> (Done None, s')
      | (Inl (FindFailed e), s') \<Rightarrow> (Panic e, s')
      | (Inr sr, s') \<Rightarrow> (Done (Some sr), s'))"

definition getItem :: "platform \<Rightarrow> string \<Rightarrow> store \<Rightarrow> (gomap \<times> int) outcome \<times> store" where
  "getItem P path s =
     (case getSR P path s of
        (Panic e, s') \<Rightarrow> (Panic e, s')
      | (Done None, s') \<Rightarrow> (Done (makeResponse ''No item found'' StatusNotFound), s')
      | (Done (Some data), s') \<Rightarrow>
          (case decode_err P data of
             Some e \<Rightarrow> (Panic e, s')
           | None \<Rightarrow> (Done (data, StatusOK), s')))"

definition createOrOverwriteItem ::
  "platform \<Rightarrow> string \<Rightarrow> gomap option \<Rightarrow> store \<Rightarrow> (gomap \<times> int) outcome \<times> store" where
  "createOrOverwriteItem P path data s =
     (case data of
        None \<Rightarrow> (Panic nil_map_panic, s)
      | Some m \<Rightarrow>
          (let data' = m(''path'' \<mapsto> JStr path) in
           case getSR P path s of
             (Panic e, s1) \<Rightarrow> (Panic e, s1)
           | (Done None, s1) \<Rightarrow>
               (case coll_InsertOne P data' s1 of
                  (Inl e, s2) \<Rightarrow> (Panic e, s2)
                | (Inr _, s2) \<Rightarrow> (Done (makeResponse ''Ok'' StatusOK), s2))
           | (Done (Some _), s1) \<Rightarrow>
               (case coll_ReplaceOne P path data' s1 of
                  (Inl e, s2) \<Rightarrow> (Panic e, s2)
                | (Inr _, s2) \<Rightarrow> (Done (makeResponse ''Ok'' StatusOK), s2))))"

definition createOrUpdateItem ::
  "platform \<Rightarrow> string \<Rightarrow> gomap option \<Rightarrow> store \<Rightarrow> (gomap \<times> int) outcome \<times> store" where
  "createOrUpdateItem P path data s =
     (case data of
        None \<Rightarrow> (Panic nil_map_panic, s)
      | Some m \<Rightarrow>
          (let data' = m(''path'' \<mapsto> JStr path) in
           case getSR P path s of
             (Panic e, s1) \<Rightarrow> (Panic e, s1)
           | (Done None, s1) \<Rightarrow>
               (case coll_InsertOne P data' s1 of
                  (Inl e, s2) \<Rightarrow> (Panic e, s2)
                | (Inr _, s2) \<Rightarrow> (Done (makeResponse ''Ok'' StatusOK), s2))
           | (Done (Some _), s1) \<Rightarrow>
               (case coll_UpdateOne P path data' s1 of
                  (Inl e, s2) \<Rightarrow> (Done (makeResponse e StatusBadRequest), s2)
                | (Inr _, s2) \<Rightarrow> (Done (makeResponse ''Ok'' StatusOK), s2))))"

definition deleteItem :: "platform \<Rightarrow> string \<Rightarrow> store \<Rightarrow> (gomap \<times> int) outcome \<times> store" where
  "deleteItem P path s =
     (case coll_DeleteOne P path s of
        (Inl e, s') \<Rightarrow> (Panic e, s')
      | (Inr DeletedCount, s') \<Rightarrow>
          (Done (makeResponse (''Deleted count: '' @ sprintf_d DeletedCount) StatusOK), s'))"

text \<open>
  What \<^verbatim>\<open>mainHandler\<close> writes to the \<^verbatim>\<open>ResponseWriter\<close>: the \<^verbatim>\<open>Content-Type\<close> header, the
  status code and the JSON text of the response body, the text being identified with
  the map it encodes. The call of \<^verbatim>\<open>log.Printf\<close> is left out. The \<^verbatim>\<open>Response\<close> that \<^verbatim>\<open>newResponse\<close> makes (an empty body, code
  \<open>-1\<close>) is overwritten on every path through the handler.
\<close>

record written =
  content_type :: string
  status_code :: int
  json_body :: gomap

definition mainHandler :: "platform \<Rightarrow> request \<Rightarrow> store \<Rightarrow> written outcome \<times> store" where
  "mainHandler P req s =
     (let path = req_uri req in
      case readBody P req of
        Panic e \<Rightarrow> (Panic e, s)
      | Done (body, err) \<Rightarrow>
          (case
             (if err \<noteq> None then
                (Done (makeResponse ''Error reading JSON body'' StatusBadRequest), s)
              else if req_method req = ''GET'' then getItem P path s
              else if req_method req = ''POST'' then createOrUpdateItem P path body s
              else if req_method req = ''PUT'' then createOrOverwriteItem P path body s
              else if req_method req = ''DELETE'' then deleteItem P path s
              else (Done (makeResponse ''Unsupported method'' StatusBadRequest), s))
           of
             (Panic e, s') \<Rightarrow> (Panic e, s')
           | (Done (response_body, response_code), s') \<Rightarrow>
               (case marshal_err P response_body of
                  Some e \<Rightarrow> (Panic e, s')
                | None \<Rightarrow>
                    (Done \<lparr>content_type = ''application/json'',
                           status_code = response_code,
                           json_body = response_body\<rparr>, s'))))"

section \<open>An example platform and example stores\<close>

text \<open>
  The examples run the functions on a platform whose store answers every call, except
  that it rejects an update document with a top-level \<^verbatim>\<open>path\<close> key, and whose JSON decoder
  is \<^verbatim>\<open>encoding/json\<close> on the inputs the examples use: the text \<^verbatim>\<open>{}\<close>, an empty object,
  the text \<^verbatim>\<open>null\<close>, and the text \<^verbatim>\<open>{\<close>, which is not JSON.
\<close>

definition example_platform :: platform where
  "example_platform =
     \<lparr>unmarshal = (\<lambda>bs. if bs = ''{}'' then Inr (Some Map.empty)
                       else if bs = ''null'' then Inr None
                       else Inl ''unexpected end of JSON input''),
      driver_err = (\<lambda>c ds. case c of
                       UpdateOne p u \<Rightarrow> if u ''path'' = None then None else Some ''Unknown modifier: path''
                     | _ \<Rightarrow> None),
      write_err = (\<lambda>c. case c of
                      InsertOne d \<Rightarrow> ''E11000 duplicate key error''
                    | _ \<Rightarrow> ''the (immutable) field _id was found to have been altered''),
      fresh_id = (\<lambda>ds. ''id'' @ sprintf_d (int (length ds))),
      apply_update = (\<lambda>old u. old),
      decode_err = (\<lambda>_. None),
      marshal_err = (\<lambda>_. None)\<rparr>"

text \<open>A collection with one document for \<^verbatim>\<open>/b\<close> and one for \<^verbatim>\<open>/a\<close>.\<close>

definition store0 :: store where
  "store0 =
     \<lparr>docs = [[''_id'' \<mapsto> JObjectID ''b1'', ''path'' \<mapsto> JStr ''/b''],
              [''_id'' \<mapsto> JObjectID ''a1'', ''path'' \<mapsto> JStr ''/a'', ''y'' \<mapsto> JNull]],
      calls = []\<rparr>"

text \<open>A collection with one document, for \<^verbatim>\<open>/a\<close>, whose \<^verbatim>\<open>_id\<close> is the number 1.\<close>

definition store1 :: store where
  "store1 =
     \<lparr>docs = [[''_id'' \<mapsto> JFloat 1, ''x'' \<mapsto> JFloat 1, ''path'' \<mapsto> JStr ''/a'']],
      calls = []\<rparr>"

text \<open>The empty collection.\<close>

definition store_empty :: store where
  "store_empty = \<lparr>docs = [], calls = []\<rparr>"

section \<open>Lists and the collection\<close>

lemma find_None_filter: "find Q xs = None \<longleftrightarrow> filter Q xs = []"
  by (induction xs) auto

lemma find_Some_mem: "find Q xs = Some x \<Longrightarrow> x \<in> set xs \<and> Q x"
  by (induction xs) (auto split: if_splits)

lemma replace_first_absent: "find Q xs = None \<Longrightarrow> replace_first Q f xs = xs"
  by (induction xs) (auto split: if_splits)

lemma replace_first_unique:
  "length (filter Q xs) \<le> 1 \<Longrightarrow> replace_first Q f xs = map (\<lambda>x. if Q x then f x else x) xs"
proof (induction xs)
  case Nil
  then show ?case by simp
next
  case (Cons x xs)
  show ?case
  proof (cases "Q x")
    case True
    with Cons.prems have "filter Q xs = []" by simp
    then have "\<forall>y\<in>set xs. \<not> Q y" by (simp add: filter_empty_conv)
    then have "map (\<lambda>x. if Q x then f x else x) xs = xs" by (simp add: map_idI)
    with True show ?thesis by simp
  next
    case False
    with Cons show ?thesis by simp
  qed
qed

lemma find_replace_first:
  "find Q xs = Some x \<Longrightarrow> Q (f x) \<Longrightarrow> find Q (replace_first Q f xs) = Some (f x)"
  by (induction xs) (auto split: if_splits)

lemma filter_replace_first:
  "Q (f x) \<Longrightarrow> find Q xs = Some x \<Longrightarrow> filter Q (replace_first Q f xs) = f x # tl (filter Q xs)"
  by (induction xs) (auto split: if_splits)

lemma replace_first_same:
  "find Q xs = Some d \<Longrightarrow> replace_first Q (\<lambda>_. d) xs = xs"
  by (induction xs) (auto split: if_splits)

lemma filter_remove_first: "filter Q (remove_first Q xs) = tl (filter Q xs)"
  by (induction xs) auto

lemma remove_first_absent: "find Q xs = None \<Longrightarrow> remove_first Q xs = xs"
  by (induction xs) (auto split: if_splits)

lemma length_le1_tl: "length xs \<le> 1 \<Longrightarrow> tl xs = []"
  by (cases xs) auto

lemma docs_logged [simp]: "docs (logged c s) = docs s"
  by (simp add: logged_def)

lemma calls_logged [simp]: "calls (logged c s) = calls s @ [c]"
  by (simp add: logged_def)

lemma getSR_answered:
  "driver_err P (FindOne p) (docs s) = None \<Longrightarrow>
   getSR P p s = (Done (find (has_path p) (docs s)), logged (FindOne p) s)"
  by (simp add: getSR_def coll_FindOne_def split: option.splits)

lemma getSR_docs: "docs (snd (getSR P p s)) = docs s"
  by (simp add: getSR_def coll_FindOne_def split: option.splits)

lemma getSR_Done: "fst (getSR P p s) = Done r \<Longrightarrow> driver_err P (FindOne p) (docs s) = None"
  by (auto simp add: getSR_def coll_FindOne_def split: option.splits)

section \<open>PUT: create or overwrite\<close>

lemma has_path_injected: "has_path p (b(''path'' \<mapsto> JStr p))"
  by (simp add: has_path_def)

lemma has_path_assign_id: "has_path p (assign_id P ds d) = has_path p d"
  by (simp add: has_path_def assign_id_def)

lemma has_path_keep_id: "has_path p (keep_id d old) = has_path p d"
  by (simp add: has_path_def keep_id_def)

lemma assign_id_other: "k \<noteq> ''_id'' \<Longrightarrow> assign_id P ds d k = d k"
  by (simp add: assign_id_def)

lemma keep_id_other: "k \<noteq> ''_id'' \<Longrightarrow> keep_id d old k = d k"
  by (simp add: keep_id_def)

lemma keep_id_same: "\<not> id_changed old d \<Longrightarrow> keep_id d (keep_id d old) = keep_id d old"
  by (simp add: keep_id_def)

lemma createOrOverwriteItem_insert:
  assumes "driver_err P (FindOne p) (docs s) = None"
    and "find (has_path p) (docs s) = None"
    and "driver_err P (InsertOne (b(''path'' \<mapsto> JStr p))) (docs s) = None"
    and "\<not> id_taken (b(''path'' \<mapsto> JStr p)) (docs s)"
  shows "createOrOverwriteItem P p (Some b) s =
         (Done (makeResponse ''Ok'' 200),
          s\<lparr>docs := docs s @ [assign_id P (docs s) (b(''path'' \<mapsto> JStr p))],
            calls := calls s @ [FindOne p, InsertOne (b(''path'' \<mapsto> JStr p))]\<rparr>)"
  using assms
  by (simp add: createOrOverwriteItem_def Let_def getSR_answered coll_InsertOne_def logged_def StatusOK_def)

lemma createOrOverwriteItem_replace:
  assumes "driver_err P (FindOne p) (docs s) = None"
    and "find (has_path p) (docs s) = Some old"
    and "driver_err P (ReplaceOne p (b(''path'' \<mapsto> JStr p))) (docs s) = None"
    and "\<not> id_changed old (b(''path'' \<mapsto> JStr p))"
  shows "createOrOverwriteItem P p (Some b) s =
         (Done (makeResponse ''Ok'' 200),
          s\<lparr>docs := replace_first (has_path p) (keep_id (b(''path'' \<mapsto> JStr p))) (docs s),
            calls := calls s @ [FindOne p, ReplaceOne p (b(''path'' \<mapsto> JStr p))]\<rparr>)"
  using assms
  by (simp add: createOrOverwriteItem_def Let_def getSR_answered coll_ReplaceOne_def logged_def StatusOK_def)

lemma createOrOverwriteItem_Done:
  "fst (createOrOverwriteItem P p data s) = Done r \<Longrightarrow> r = makeResponse ''Ok'' 200"
  by (auto simp add: createOrOverwriteItem_def Let_def StatusOK_def
      split: option.splits prod.splits outcome.splits sum.splits)

text \<open>
  Claim C1, as amended. \<^verbatim>\<open>createOrOverwriteItem\<close> on a path \<open>p\<close> and a non-nil body \<open>b\<close>
  never responds with anything but the envelope \<^verbatim>\<open>{message: "Ok", status: 200}\<close> and
  status 200. When the store answers the lookup and accepts the write, and holds at most
  one document for \<open>p\<close>, it does respond so; it appends a document when none for \<open>p\<close>
  existed, and otherwise puts a document in the place of the existing one, every
  other document staying as it was; afterwards exactly one document has the path \<open>p\<close>.
  On every field but \<^verbatim>\<open>_id\<close> that document is \<open>b\<close> with \<^verbatim>\<open>path\<close> set to \<open>p\<close>. Its \<^verbatim>\<open>_id\<close> is
  the one of \<open>b\<close>, or a new one when \<open>b\<close> has none, after an insert; it is the \<^verbatim>\<open>_id\<close> of
  the replaced document after a replacement.
\<close>

theorem createOrOverwriteItem_upsert:
  "(\<forall>r. fst (createOrOverwriteItem P p (Some b) s) = Done r \<longrightarrow>
        r = ([''message'' \<mapsto> JStr ''Ok'', ''status'' \<mapsto> JInt 200], 200)) \<and>
   (driver_err P (FindOne p) (docs s) = None \<and>
    (case find (has_path p) (docs s) of
       None \<Rightarrow> driver_err P (InsertOne (b(''path'' \<mapsto> JStr p))) (docs s) = None \<and>
               \<not> id_taken (b(''path'' \<mapsto> JStr p)) (docs s)
     | Some old \<Rightarrow> driver_err P (ReplaceOne p (b(''path'' \<mapsto> JStr p))) (docs s) = None \<and>
                   \<not> id_changed old (b(''path'' \<mapsto> JStr p))) \<and>
    length (filter (has_path p) (docs s)) \<le> 1 \<longrightarrow>
      fst (createOrOverwriteItem P p (Some b) s) =
        Done ([''message'' \<mapsto> JStr ''Ok'', ''status'' \<mapsto> JInt 200], 200) \<and>
      docs (snd (createOrOverwriteItem P p (Some b) s)) =
        (case find (has_path p) (docs s) of
           None \<Rightarrow> docs s @ [assign_id P (docs s) (b(''path'' \<mapsto> JStr p))]
         | Some old \<Rightarrow>
             map (\<lambda>d. if has_path p d then keep_id (b(''path'' \<mapsto> JStr p)) d else d) (docs s)) \<and>
      (\<exists>stored.
         filter (has_path p) (docs (snd (createOrOverwriteItem P p (Some b) s))) = [stored] \<and>
         (\<forall>k. k \<noteq> ''_id'' \<longrightarrow> stored k = (b(''path'' \<mapsto> JStr p)) k) \<and>
         stored ''_id'' =
           (case find (has_path p) (docs s) of
              None \<Rightarrow> (if b ''_id'' = None then Some (JObjectID (fresh_id P (docs s)))
                        else b ''_id'')
            | Some old \<Rightarrow> old ''_id'')))"
proof (intro conjI allI impI)
  fix r
  assume "fst (createOrOverwriteItem P p (Some b) s) = Done r"
  then show "r = ([''message'' \<mapsto> JStr ''Ok'', ''status'' \<mapsto> JInt 200], 200)"
    using createOrOverwriteItem_Done [of P p "Some b" s r] by (simp add: makeResponse_def)
next
  let ?d = "b(''path'' \<mapsto> JStr p)"
  let ?res = "createOrOverwriteItem P p (Some b) s"
  assume h: "driver_err P (FindOne p) (docs s) = None \<and>
    (case find (has_path p) (docs s) of
       None \<Rightarrow> driver_err P (InsertOne ?d) (docs s) = None \<and> \<not> id_taken ?d (docs s)
     | Some old \<Rightarrow> driver_err P (ReplaceOne p ?d) (docs s) = None \<and> \<not> id_changed old ?d) \<and>
    length (filter (has_path p) (docs s)) \<le> 1"
  have all: "fst ?res = Done ([''message'' \<mapsto> JStr ''Ok'', ''status'' \<mapsto> JInt 200], 200) \<and>
      docs (snd ?res) =
        (case find (has_path p) (docs s) of
           None \<Rightarrow> docs s @ [assign_id P (docs s) ?d]
         | Some old \<Rightarrow> map (\<lambda>d. if has_path p d then keep_id ?d d else d) (docs s)) \<and>
      (\<exists>stored.
         filter (has_path p) (docs (snd ?res)) = [stored] \<and>
         (\<forall>k. k \<noteq> ''_id'' \<longrightarrow> stored k = ?d k) \<and>
         stored ''_id'' =
           (case find (has_path p) (docs s) of
              None \<Rightarrow> (if b ''_id'' = None then Some (JObjectID (fresh_id P (docs s)))
                        else b ''_id'')
            | Some old \<Rightarrow> old ''_id''))"
  proof (cases "find (has_path p) (docs s)")
    case None
    with h have eq: "?res = (Done (makeResponse ''Ok'' 200),
        s\<lparr>docs := docs s @ [assign_id P (docs s) ?d],
          calls := calls s @ [FindOne p, InsertOne ?d]\<rparr>)"
      by (simp add: createOrOverwriteItem_insert)
    from None have "filter (has_path p) (docs s) = []"
      by (simp add: find_None_filter)
    with eq have f: "filter (has_path p) (docs (snd ?res)) = [assign_id P (docs s) ?d]"
      by (simp add: has_path_assign_id has_path_injected)
    have o: "\<forall>k. k \<noteq> ''_id'' \<longrightarrow> assign_id P (docs s) ?d k = ?d k"
      by (simp add: assign_id_def)
    have i: "assign_id P (docs s) ?d ''_id'' =
        (if b ''_id'' = None then Some (JObjectID (fresh_id P (docs s))) else b ''_id'')"
      by (simp add: assign_id_def)
    from f o i have "\<exists>stored.
         filter (has_path p) (docs (snd ?res)) = [stored] \<and>
         (\<forall>k. k \<noteq> ''_id'' \<longrightarrow> stored k = ?d k) \<and>
         stored ''_id'' =
           (if b ''_id'' = None then Some (JObjectID (fresh_id P (docs s))) else b ''_id'')"
      by (intro exI [of _ "assign_id P (docs s) ?d"] conjI)
    with eq None show ?thesis
      by (simp add: makeResponse_def)
  next
    case (Some old)
    with h have eq: "?res = (Done (makeResponse ''Ok'' 200),
        s\<lparr>docs := replace_first (has_path p) (keep_id ?d) (docs s),
          calls := calls s @ [FindOne p, ReplaceOne p ?d]\<rparr>)"
      by (simp add: createOrOverwriteItem_replace)
    from h have u: "length (filter (has_path p) (docs s)) \<le> 1" by simp
    have "filter (has_path p) (replace_first (has_path p) (keep_id ?d) (docs s)) =
          keep_id ?d old # tl (filter (has_path p) (docs s))"
      using Some by (simp add: filter_replace_first has_path_keep_id has_path_injected)
    with u eq have f: "filter (has_path p) (docs (snd ?res)) = [keep_id ?d old]"
      by (simp add: length_le1_tl)
    have o: "\<forall>k. k \<noteq> ''_id'' \<longrightarrow> keep_id ?d old k = ?d k"
      by (simp add: keep_id_def)
    have i: "keep_id ?d old ''_id'' = old ''_id''"
      by (simp add: keep_id_def)
    from f o i have "\<exists>stored.
         filter (has_path p) (docs (snd ?res)) = [stored] \<and>
         (\<forall>k. k \<noteq> ''_id'' \<longrightarrow> stored k = ?d k) \<and>
         stored ''_id'' = old ''_id''"
      by (intro exI [of _ "keep_id ?d old"] conjI)
    with eq u Some show ?thesis
      by (simp add: makeResponse_def replace_first_unique)
  qed
  show "fst ?res = Done ([''message'' \<mapsto> JStr ''Ok'', ''status'' \<mapsto> JInt 200], 200)"
    by (rule conjunct1 [OF all])
  show "docs (snd ?res) =
        (case find (has_path p) (docs s) of
           None \<Rightarrow> docs s @ [assign_id P (docs s) ?d]
         | Some old \<Rightarrow> map (\<lambda>d. if has_path p d then keep_id ?d d else d) (docs s))"
    by (rule conjunct1 [OF conjunct2 [OF all]])
  show "\<exists>stored.
         filter (has_path p) (docs (snd ?res)) = [stored] \<and>
         (\<forall>k. k \<noteq> ''_id'' \<longrightarrow> stored k = ?d k) \<and>
         stored ''_id'' =
           (case find (has_path p) (docs s) of
              None \<Rightarrow> (if b ''_id'' = None then Some (JObjectID (fresh_id P (docs s)))
                        else b ''_id'')
            | Some old \<Rightarrow> old ''_id'')"
    by (rule conjunct2 [OF conjunct2 [OF all]])
qed

theorem createOrOverwriteItem_upsert_witness:
  "fst (createOrOverwriteItem example_platform ''/a'' (Some [''x'' \<mapsto> JFloat 2]) store0) =
     Done ([''message'' \<mapsto> JStr ''Ok'', ''status'' \<mapsto> JInt 200], 200) \<and>
   docs (snd (createOrOverwriteItem example_platform ''/a'' (Some [''x'' \<mapsto> JFloat 2]) store0)) =
     [[''_id'' \<mapsto> JObjectID ''b1'', ''path'' \<mapsto> JStr ''/b''],
      [''x'' \<mapsto> JFloat 2, ''path'' \<mapsto> JStr ''/a'', ''_id'' \<mapsto> JObjectID ''a1'']]"
proof -
  let ?old = "[''_id'' \<mapsto> JObjectID ''a1'', ''path'' \<mapsto> JStr ''/a'', ''y'' \<mapsto> JNull]"
  let ?d = "[''x'' \<mapsto> JFloat 2, ''path'' \<mapsto> JStr ''/a'']"
  have f: "find (has_path ''/a'') (docs store0) = Some ?old"
    by (simp add: store0_def has_path_def)
  have h: "driver_err example_platform (FindOne ''/a'') (docs store0) = None \<and>
    (case find (has_path ''/a'') (docs store0) of
       None \<Rightarrow> driver_err example_platform (InsertOne ?d) (docs store0) = None \<and>
               \<not> id_taken ?d (docs store0)
     | Some old \<Rightarrow> driver_err example_platform (ReplaceOne ''/a'' ?d) (docs store0) = None \<and>
                   \<not> id_changed old ?d) \<and>
    length (filter (has_path ''/a'') (docs store0)) \<le> 1"
    unfolding f by (simp add: example_platform_def store0_def has_path_def id_changed_def)
  have m: "map (\<lambda>d. if has_path ''/a'' d then keep_id ?d d else d) (docs store0) =
           [[''_id'' \<mapsto> JObjectID ''b1'', ''path'' \<mapsto> JStr ''/b''],
            [''x'' \<mapsto> JFloat 2, ''path'' \<mapsto> JStr ''/a'', ''_id'' \<mapsto> JObjectID ''a1'']]"
    by (simp add: store0_def has_path_def keep_id_def)
  note t = mp [OF conjunct2 [OF createOrOverwriteItem_upsert
                 [of example_platform "''/a''" "[''x'' \<mapsto> JFloat 2]" store0]] h]
  have c2: "docs (snd (createOrOverwriteItem example_platform ''/a'' (Some [''x'' \<mapsto> JFloat 2]) store0)) =
      map (\<lambda>d. if has_path ''/a'' d then keep_id ?d d else d) (docs store0)"
    using conjunct1 [OF conjunct2 [OF t]] unfolding f by simp
  from conjunct1 [OF t] c2 [unfolded m] show ?thesis by (intro conjI)
qed

text \<open>
  The claim C1 as stated, that the content of the document is \<open>b\<close> plus the field
  \<^verbatim>\<open>path\<close>, fails: on a collection whose document for \<^verbatim>\<open>/a\<close> has the \<^verbatim>\<open>_id\<close> 1, a body with
  the single field \<^verbatim>\<open>x\<close> leaves a document with the three fields \<^verbatim>\<open>x\<close>, \<^verbatim>\<open>path\<close> and
  \<^verbatim>\<open>_id\<close>.
\<close>

theorem createOrOverwriteItem_upsert_counterexample:
  "filter (has_path ''/a'')
     (docs (snd (createOrOverwriteItem example_platform ''/a'' (Some [''x'' \<mapsto> JFloat 2]) store1))) =
     [[''x'' \<mapsto> JFloat 2, ''path'' \<mapsto> JStr ''/a'', ''_id'' \<mapsto> JFloat 1]] \<and>
   [''x'' \<mapsto> JFloat 2, ''path'' \<mapsto> JStr ''/a'', ''_id'' \<mapsto> JFloat 1] ''_id'' \<noteq>
     ([''x'' \<mapsto> JFloat 2](''path'' \<mapsto> JStr ''/a'')) ''_id''"
  by (simp add: createOrOverwriteItem_def Let_def getSR_def coll_FindOne_def coll_ReplaceOne_def
      logged_def example_platform_def store1_def has_path_def id_changed_def keep_id_def)

section \<open>GET and DELETE\<close>

lemma find_present: "(\<exists>x\<in>set xs. Q x) \<Longrightarrow> \<exists>x. find Q xs = Some x"
  by (induction xs) auto

lemma find_absent: "(\<forall>x\<in>set xs. \<not> Q x) \<Longrightarrow> find Q xs = None"
  by (induction xs) auto

lemma getItem_answered:
  "driver_err P (FindOne p) (docs s) = None \<Longrightarrow>
   getItem P p s =
     (case find (has_path p) (docs s) of
        None \<Rightarrow> (Done (makeResponse ''No item found'' 404), logged (FindOne p) s)
      | Some d \<Rightarrow>
          (case decode_err P d of
             Some e \<Rightarrow> (Panic e, logged (FindOne p) s)
           | None \<Rightarrow> (Done (d, 200), logged (FindOne p) s)))"
  by (simp add: getItem_def getSR_answered StatusOK_def StatusNotFound_def split: option.splits)

text \<open>
  Claim C2. When the store answers the lookup, \<^verbatim>\<open>getItem\<close> on a path \<open>p\<close> returns a stored
  document whose \<^verbatim>\<open>path\<close> field is \<open>p\<close> (the first one the store finds), with status 200,
  if such a document exists and decodes; it returns the envelope
  \<^verbatim>\<open>{message: "No item found", status: 404}\<close> with status 404 if no document has the path
  \<open>p\<close>, as is the case before anything was written for \<open>p\<close>. It leaves the documents of
  the collection as they are.
\<close>

theorem getItem_found_or_404:
  assumes "driver_err P (FindOne p) (docs s) = None"
  shows "((\<exists>d\<in>set (docs s). has_path p d) \<longrightarrow>
            (\<exists>d. find (has_path p) (docs s) = Some d \<and> d \<in> set (docs s) \<and> has_path p d \<and>
                 (decode_err P d = None \<longrightarrow> fst (getItem P p s) = Done (d, 200)))) \<and>
         ((\<forall>d\<in>set (docs s). \<not> has_path p d) \<longrightarrow>
            fst (getItem P p s) =
              Done ([''message'' \<mapsto> JStr ''No item found'', ''status'' \<mapsto> JInt 404], 404)) \<and>
         docs (snd (getItem P p s)) = docs s"
proof (intro conjI impI)
  assume "\<exists>d\<in>set (docs s). has_path p d"
  then obtain d where d: "find (has_path p) (docs s) = Some d"
    using find_present by fastforce
  then have m: "d \<in> set (docs s)" and h: "has_path p d"
    using find_Some_mem [of "has_path p" "docs s" d] by simp_all
  have g: "decode_err P d = None \<longrightarrow> fst (getItem P p s) = Done (d, 200)"
    using assms d by (simp add: getItem_answered)
  show "\<exists>d. find (has_path p) (docs s) = Some d \<and> d \<in> set (docs s) \<and> has_path p d \<and>
                 (decode_err P d = None \<longrightarrow> fst (getItem P p s) = Done (d, 200))"
    by (rule exI [of _ d]) (intro conjI d m h g)
next
  assume "\<forall>d\<in>set (docs s). \<not> has_path p d"
  then have "find (has_path p) (docs s) = None"
    by (rule find_absent)
  with assms show "fst (getItem P p s) =
      Done ([''message'' \<mapsto> JStr ''No item found'', ''status'' \<mapsto> JInt 404], 404)"
    by (simp add: getItem_answered makeResponse_def)
next
  from assms show "docs (snd (getItem P p s)) = docs s"
    by (simp add: getItem_answered split: option.splits)
qed

lemma sprintf_d_0: "sprintf_d 0 = ''0''"
  by (simp add: sprintf_d_def digit_def)

lemma sprintf_d_1: "sprintf_d 1 = ''1''"
  by (simp add: sprintf_d_def digit_def)

lemma deleteItem_answered:
  "driver_err P (DeleteOne p) (docs s) = None \<Longrightarrow>
   deleteItem P p s =
     (Done (makeResponse (''Deleted count: '' @ (if find (has_path p) (docs s) = None then ''0'' else ''1'')) 200),
      s\<lparr>docs := remove_first (has_path p) (docs s), calls := calls s @ [DeleteOne p]\<rparr>)"
  by (simp add: deleteItem_def coll_DeleteOne_def logged_def StatusOK_def sprintf_d_0 sprintf_d_1)

lemma deleteItem_Done: "fst (deleteItem P p s) = Done r \<Longrightarrow> snd r = 200"
  by (auto simp add: deleteItem_def coll_DeleteOne_def makeResponse_def StatusOK_def
      split: option.splits)

theorem getItem_found_or_404_witness:
  "fst (getItem example_platform ''/a'' store0) =
     Done ([''_id'' \<mapsto> JObjectID ''a1'', ''path'' \<mapsto> JStr ''/a'', ''y'' \<mapsto> JNull], 200) \<and>
   fst (getItem example_platform ''/c'' store0) =
     Done ([''message'' \<mapsto> JStr ''No item found'', ''status'' \<mapsto> JInt 404], 404) \<and>
   fst (getItem example_platform ''/a'' \<lparr>docs = [], calls = []\<rparr>) =
     Done ([''message'' \<mapsto> JStr ''No item found'', ''status'' \<mapsto> JInt 404], 404)"
proof -
  have a: "driver_err example_platform (FindOne ''/a'') (docs store0) = None"
    and c: "driver_err example_platform (FindOne ''/c'') (docs store0) = None"
    and e: "driver_err example_platform (FindOne ''/a'') (docs \<lparr>docs = [], calls = []\<rparr>) = None"
    by (simp_all add: example_platform_def)
  have f: "find (has_path ''/a'') (docs store0) = Some [''_id'' \<mapsto> JObjectID ''a1'', ''path'' \<mapsto> JStr ''/a'', ''y'' \<mapsto> JNull]"
    by (simp add: store0_def has_path_def)
  have x: "\<exists>d\<in>set (docs store0). has_path ''/a'' d"
    by (simp add: store0_def has_path_def)
  note t = getItem_found_or_404 [OF a]
  from mp [OF conjunct1 [OF t] x] obtain d where
    d: "find (has_path ''/a'') (docs store0) = Some d"
    and g: "decode_err example_platform d = None \<longrightarrow>
            fst (getItem example_platform ''/a'' store0) = Done (d, 200)"
    by (elim exE conjE)
  have "decode_err example_platform d = None"
    by (simp add: example_platform_def)
  with g have "fst (getItem example_platform ''/a'' store0) = Done (d, 200)"
    by (rule mp)
  moreover from d f have "d = [''_id'' \<mapsto> JObjectID ''a1'', ''path'' \<mapsto> JStr ''/a'', ''y'' \<mapsto> JNull]"
    by simp
  ultimately have 1: "fst (getItem example_platform ''/a'' store0) =
     Done ([''_id'' \<mapsto> JObjectID ''a1'', ''path'' \<mapsto> JStr ''/a'', ''y'' \<mapsto> JNull], 200)"
    by simp
  have n: "\<forall>d\<in>set (docs store0). \<not> has_path ''/c'' d"
    by (simp add: store0_def has_path_def)
  have 2: "fst (getItem example_platform ''/c'' store0) =
     Done ([''message'' \<mapsto> JStr ''No item found'', ''status'' \<mapsto> JInt 404], 404)"
    by (rule mp [OF conjunct1 [OF conjunct2 [OF getItem_found_or_404 [OF c]]] n])
  have m: "\<forall>d\<in>set (docs \<lparr>docs = [], calls = []\<rparr>). \<not> has_path ''/a'' d"
    by simp
  have 3: "fst (getItem example_platform ''/a'' \<lparr>docs = [], calls = []\<rparr>) =
     Done ([''message'' \<mapsto> JStr ''No item found'', ''status'' \<mapsto> JInt 404], 404)"
    by (rule mp [OF conjunct1 [OF conjunct2 [OF getItem_found_or_404 [OF e]]] m])
  from 1 2 3 show ?thesis by (intro conjI)
qed

lemma find_remove_first_unique:
  "length (filter Q xs) \<le> 1 \<Longrightarrow> find Q (remove_first Q xs) = None"
  by (simp add: find_None_filter filter_remove_first length_le1_tl)

text \<open>
  Claim C4. \<^verbatim>\<open>deleteItem\<close> never responds with a status other than 200. When the store
  answers the delete call: if a document for \<open>p\<close> existed, the message is
  \<^verbatim>\<open>Deleted count: 1\<close>, and a following \<^verbatim>\<open>getItem\<close> on \<open>p\<close> returns the 404 envelope
  (the collection having held at most one document for \<open>p\<close>, and the store answering
  the lookup); if none existed, the message is \<^verbatim>\<open>Deleted count: 0\<close> and the documents
  are unchanged.
\<close>

theorem deleteItem_count:
  "(\<forall>r. fst (deleteItem P p s) = Done r \<longrightarrow> snd r = 200) \<and>
   (driver_err P (DeleteOne p) (docs s) = None \<longrightarrow>
      ((\<exists>d\<in>set (docs s). has_path p d) \<longrightarrow>
         fst (deleteItem P p s) =
           Done ([''message'' \<mapsto> JStr ''Deleted count: 1'', ''status'' \<mapsto> JInt 200], 200) \<and>
         (length (filter (has_path p) (docs s)) \<le> 1 \<and>
          driver_err P (FindOne p) (docs (snd (deleteItem P p s))) = None \<longrightarrow>
            fst (getItem P p (snd (deleteItem P p s))) =
              Done ([''message'' \<mapsto> JStr ''No item found'', ''status'' \<mapsto> JInt 404], 404))) \<and>
      ((\<forall>d\<in>set (docs s). \<not> has_path p d) \<longrightarrow>
         fst (deleteItem P p s) =
           Done ([''message'' \<mapsto> JStr ''Deleted count: 0'', ''status'' \<mapsto> JInt 200], 200) \<and>
         docs (snd (deleteItem P p s)) = docs s))"
proof (intro conjI allI impI)
  fix r
  assume "fst (deleteItem P p s) = Done r"
  then show "snd r = 200" by (rule deleteItem_Done)
next
  assume ok: "driver_err P (DeleteOne p) (docs s) = None"
    and ex: "\<exists>d\<in>set (docs s). has_path p d"
  from find_present [OF ex] obtain y where "find (has_path p) (docs s) = Some y"
    by (elim exE)
  with ok show "fst (deleteItem P p s) =
      Done ([''message'' \<mapsto> JStr ''Deleted count: 1'', ''status'' \<mapsto> JInt 200], 200)"
    by (simp add: deleteItem_answered makeResponse_def)
next
  assume ok: "driver_err P (DeleteOne p) (docs s) = None"
    and u: "length (filter (has_path p) (docs s)) \<le> 1 \<and>
            driver_err P (FindOne p) (docs (snd (deleteItem P p s))) = None"
  from ok have d: "docs (snd (deleteItem P p s)) = remove_first (has_path p) (docs s)"
    by (simp add: deleteItem_answered)
  with u have "find (has_path p) (docs (snd (deleteItem P p s))) = None"
    by (simp add: find_remove_first_unique)
  with u show "fst (getItem P p (snd (deleteItem P p s))) =
      Done ([''message'' \<mapsto> JStr ''No item found'', ''status'' \<mapsto> JInt 404], 404)"
    by (simp add: getItem_answered makeResponse_def)
next
  assume ok: "driver_err P (DeleteOne p) (docs s) = None"
    and no: "\<forall>d\<in>set (docs s). \<not> has_path p d"
  from no have n: "find (has_path p) (docs s) = None"
    by (rule find_absent)
  with ok show "fst (deleteItem P p s) =
      Done ([''message'' \<mapsto> JStr ''Deleted count: 0'', ''status'' \<mapsto> JInt 200], 200)"
    by (simp add: deleteItem_answered makeResponse_def)
  from ok n show "docs (snd (deleteItem P p s)) = docs s"
    by (simp add: deleteItem_answered remove_first_absent)
qed

theorem deleteItem_count_witness:
  "fst (deleteItem example_platform ''/a'' store0) =
     Done ([''message'' \<mapsto> JStr ''Deleted count: 1'', ''status'' \<mapsto> JInt 200], 200) \<and>
   fst (getItem example_platform ''/a'' (snd (deleteItem example_platform ''/a'' store0))) =
     Done ([''message'' \<mapsto> JStr ''No item found'', ''status'' \<mapsto> JInt 404], 404) \<and>
   fst (deleteItem example_platform ''/c'' store0) =
     Done ([''message'' \<mapsto> JStr ''Deleted count: 0'', ''status'' \<mapsto> JInt 200], 200) \<and>
   docs (snd (deleteItem example_platform ''/c'' store0)) = docs store0"
proof -
  have oka: "driver_err example_platform (DeleteOne ''/a'') (docs store0) = None"
    and okc: "driver_err example_platform (DeleteOne ''/c'') (docs store0) = None"
    by (simp_all add: example_platform_def)
  have x: "\<exists>d\<in>set (docs store0). has_path ''/a'' d"
    by (simp add: store0_def has_path_def)
  have u: "length (filter (has_path ''/a'') (docs store0)) \<le> 1 \<and>
           driver_err example_platform (FindOne ''/a'')
             (docs (snd (deleteItem example_platform ''/a'' store0))) = None"
    by (simp add: example_platform_def store0_def has_path_def)
  have n: "\<forall>d\<in>set (docs store0). \<not> has_path ''/c'' d"
    by (simp add: store0_def has_path_def)
  note a = mp [OF conjunct1 [OF mp [OF conjunct2 [OF deleteItem_count] oka]] x]
  note c = mp [OF conjunct2 [OF mp [OF conjunct2 [OF deleteItem_count] okc]] n]
  from conjunct1 [OF a] mp [OF conjunct2 [OF a] u] conjunct1 [OF c] conjunct2 [OF c]
  show ?thesis by (intro conjI)
qed

section \<open>POST: create or update\<close>

lemma createOrUpdateItem_insert:
  assumes "driver_err P (FindOne p) (docs s) = None"
    and "find (has_path p) (docs s) = None"
    and "driver_err P (InsertOne (b(''path'' \<mapsto> JStr p))) (docs s) = None"
  shows "createOrUpdateItem P p (Some b) s =
         (if id_taken (b(''path'' \<mapsto> JStr p)) (docs s) then
            (Panic (write_err P (InsertOne (b(''path'' \<mapsto> JStr p)))),
             s\<lparr>calls := calls s @ [FindOne p, InsertOne (b(''path'' \<mapsto> JStr p))]\<rparr>)
          else
            (Done (makeResponse ''Ok'' 200),
             s\<lparr>docs := docs s @ [assign_id P (docs s) (b(''path'' \<mapsto> JStr p))],
               calls := calls s @ [FindOne p, InsertOne (b(''path'' \<mapsto> JStr p))]\<rparr>))"
  using assms
  by (simp add: createOrUpdateItem_def Let_def getSR_answered coll_InsertOne_def logged_def StatusOK_def)

lemma createOrUpdateItem_found:
  assumes "driver_err P (FindOne p) (docs s) = None"
    and "find (has_path p) (docs s) = Some old"
  shows "createOrUpdateItem P p (Some b) s =
         (case driver_err P (UpdateOne p (b(''path'' \<mapsto> JStr p))) (docs s) of
            Some e \<Rightarrow>
              (Done (makeResponse e 400),
               s\<lparr>calls := calls s @ [FindOne p, UpdateOne p (b(''path'' \<mapsto> JStr p))]\<rparr>)
          | None \<Rightarrow>
              (Done (makeResponse ''Ok'' 200),
               s\<lparr>docs := replace_first (has_path p)
                           (\<lambda>old. apply_update P old (b(''path'' \<mapsto> JStr p))) (docs s),
                 calls := calls s @ [FindOne p, UpdateOne p (b(''path'' \<mapsto> JStr p))]\<rparr>))"
  using assms
  by (simp add: createOrUpdateItem_def Let_def getSR_answered coll_UpdateOne_def logged_def
      StatusOK_def StatusBadRequest_def split: option.splits)

text \<open>
  Claim C3. On a path \<open>p\<close> that has a document, when the store's update call returns an
  error \<open>e\<close> for the update document it is handed (the body \<open>u\<close> with \<^verbatim>\<open>path\<close> set to \<open>p\<close>),
  \<^verbatim>\<open>createOrUpdateItem\<close> responds with the envelope \<^verbatim>\<open>{message: e, status: 400}\<close> and
  status 400, and the documents of the collection, the one for \<open>p\<close> among them, are
  unchanged.
\<close>

theorem createOrUpdateItem_rejected:
  assumes "driver_err P (FindOne p) (docs s) = None"
    and "find (has_path p) (docs s) = Some old"
    and "driver_err P (UpdateOne p (u(''path'' \<mapsto> JStr p))) (docs s) = Some e"
  shows "fst (createOrUpdateItem P p (Some u) s) =
           Done ([''message'' \<mapsto> JStr e, ''status'' \<mapsto> JInt 400], 400) \<and>
         docs (snd (createOrUpdateItem P p (Some u) s)) = docs s \<and>
         find (has_path p) (docs (snd (createOrUpdateItem P p (Some u) s))) = Some old"
  using assms by (simp add: createOrUpdateItem_found makeResponse_def)

theorem createOrUpdateItem_rejected_witness:
  "fst (createOrUpdateItem example_platform ''/a'' (Some [''x'' \<mapsto> JInt 1]) store0) =
     Done ([''message'' \<mapsto> JStr ''Unknown modifier: path'', ''status'' \<mapsto> JInt 400], 400) \<and>
   docs (snd (createOrUpdateItem example_platform ''/a'' (Some [''x'' \<mapsto> JInt 1]) store0)) =
     docs store0 \<and>
   find (has_path ''/a'') (docs (snd (createOrUpdateItem example_platform ''/a'' (Some [''x'' \<mapsto> JInt 1]) store0))) =
     Some [''_id'' \<mapsto> JObjectID ''a1'', ''path'' \<mapsto> JStr ''/a'', ''y'' \<mapsto> JNull]"
proof -
  have a: "driver_err example_platform (FindOne ''/a'') (docs store0) = None"
    by (simp add: example_platform_def)
  have f: "find (has_path ''/a'') (docs store0) = Some [''_id'' \<mapsto> JObjectID ''a1'', ''path'' \<mapsto> JStr ''/a'', ''y'' \<mapsto> JNull]"
    by (simp add: store0_def has_path_def)
  have r: "driver_err example_platform (UpdateOne ''/a'' [''x'' \<mapsto> JInt 1, ''path'' \<mapsto> JStr ''/a''])
             (docs store0) = Some ''Unknown modifier: path''"
    by (simp add: example_platform_def)
  show ?thesis by (rule createOrUpdateItem_rejected [OF a f r])
qed

text \<open>
  Claim C10. On a path \<open>p\<close> that has a document, the update document that
  \<^verbatim>\<open>createOrUpdateItem\<close> hands to the store's \<^verbatim>\<open>UpdateOne\<close> is not the body \<open>b\<close> as received:
  it has the top-level key \<^verbatim>\<open>path\<close> (a key that does not begin with \<^verbatim>\<open>$\<close>) with the value
  \<open>p\<close>, and agrees with \<open>b\<close> on every other key.
\<close>

theorem createOrUpdateItem_update_document:
  assumes "driver_err P (FindOne p) (docs s) = None"
    and "find (has_path p) (docs s) = Some old"
  shows "\<exists>doc. calls (snd (createOrUpdateItem P p (Some b) s)) =
                 calls s @ [FindOne p, UpdateOne p doc] \<and>
               doc ''path'' = Some (JStr p) \<and>
               (\<forall>k. k \<noteq> ''path'' \<longrightarrow> doc k = b k) \<and>
               (b ''path'' \<noteq> Some (JStr p) \<longrightarrow> doc \<noteq> b)"
proof (rule exI [of _ "b(''path'' \<mapsto> JStr p)"], intro conjI allI impI)
  from assms show "calls (snd (createOrUpdateItem P p (Some b) s)) =
      calls s @ [FindOne p, UpdateOne p (b(''path'' \<mapsto> JStr p))]"
    by (simp add: createOrUpdateItem_found split: option.splits)
next
  show "(b(''path'' \<mapsto> JStr p)) ''path'' = Some (JStr p)" by simp
next
  fix k :: string
  assume "k \<noteq> ''path''"
  then show "(b(''path'' \<mapsto> JStr p)) k = b k" by simp
next
  assume n: "b ''path'' \<noteq> Some (JStr p)"
  show "b(''path'' \<mapsto> JStr p) \<noteq> b"
  proof
    assume "b(''path'' \<mapsto> JStr p) = b"
    then have "(b(''path'' \<mapsto> JStr p)) ''path'' = b ''path''" by simp
    with n show False by simp
  qed
qed

theorem createOrUpdateItem_update_document_witness:
  "calls (snd (createOrUpdateItem example_platform ''/a'' (Some [''x'' \<mapsto> JInt 1]) store0)) =
     [FindOne ''/a'', UpdateOne ''/a'' [''x'' \<mapsto> JInt 1, ''path'' \<mapsto> JStr ''/a'']]"
proof -
  have a: "driver_err example_platform (FindOne ''/a'') (docs store0) = None"
    by (simp add: example_platform_def)
  have f: "find (has_path ''/a'') (docs store0) = Some [''_id'' \<mapsto> JObjectID ''a1'', ''path'' \<mapsto> JStr ''/a'', ''y'' \<mapsto> JNull]"
    by (simp add: store0_def has_path_def)
  from createOrUpdateItem_update_document [OF a f, of "[''x'' \<mapsto> JInt 1]"]
  obtain doc where c: "calls (snd (createOrUpdateItem example_platform ''/a'' (Some [''x'' \<mapsto> JInt 1]) store0)) =
       calls store0 @ [FindOne ''/a'', UpdateOne ''/a'' doc]"
    and p: "doc ''path'' = Some (JStr ''/a'')"
    and k: "\<forall>k. k \<noteq> ''path'' \<longrightarrow> doc k = [''x'' \<mapsto> JInt 1] k"
    by (elim exE conjE)
  have "doc = [''x'' \<mapsto> JInt 1, ''path'' \<mapsto> JStr ''/a'']"
  proof
    fix j
    show "doc j = [''x'' \<mapsto> JInt 1, ''path'' \<mapsto> JStr ''/a''] j"
    proof (cases "j = ''path''")
      case True
      with p show ?thesis by simp
    next
      case False
      with k have "doc j = [''x'' \<mapsto> JInt 1] j" by (simp del: fun_upd_apply)
      with False show ?thesis by simp
    qed
  qed
  with c show ?thesis by (simp add: store0_def)
qed

lemma createOrUpdateItem_absent_eq:
  assumes "find (has_path p) (docs s) = None"
  shows "createOrUpdateItem P p (Some b) s = createOrOverwriteItem P p (Some b) s"
proof (cases "driver_err P (FindOne p) (docs s)")
  case None
  with assms show ?thesis
    by (simp add: createOrUpdateItem_def createOrOverwriteItem_def getSR_answered)
next
  case (Some e)
  then have "getSR P p s = (Panic e, logged (FindOne p) s)"
    by (simp add: getSR_def coll_FindOne_def)
  then show ?thesis
    by (simp add: createOrUpdateItem_def createOrOverwriteItem_def)
qed

text \<open>
  Claim C8. On a path \<open>p\<close> that has no document, \<^verbatim>\<open>createOrUpdateItem\<close> and
  \<^verbatim>\<open>createOrOverwriteItem\<close> give the same outcome and the same store for every non-nil
  body \<open>b\<close>. When the store answers the lookup and the insert, that is the envelope
  \<^verbatim>\<open>{message: "Ok", status: 200}\<close> with status 200, and \<open>b\<close> with \<^verbatim>\<open>path\<close> set to \<open>p\<close>, given
  an \<^verbatim>\<open>_id\<close> if it has none, appended to the collection; unless another document has the
  \<^verbatim>\<open>_id\<close> of \<open>b\<close>, where both panic on the store's write error and the documents stay
  as they were.
\<close>

theorem createOrUpdateItem_absent_as_put:
  assumes "\<forall>d\<in>set (docs s). \<not> has_path p d"
  shows "createOrUpdateItem P p (Some b) s = createOrOverwriteItem P p (Some b) s \<and>
         (driver_err P (FindOne p) (docs s) = None \<and>
          driver_err P (InsertOne (b(''path'' \<mapsto> JStr p))) (docs s) = None \<longrightarrow>
            createOrUpdateItem P p (Some b) s =
              (if id_taken (b(''path'' \<mapsto> JStr p)) (docs s) then
                 (Panic (write_err P (InsertOne (b(''path'' \<mapsto> JStr p)))),
                  s\<lparr>calls := calls s @ [FindOne p, InsertOne (b(''path'' \<mapsto> JStr p))]\<rparr>)
               else
                 (Done ([''message'' \<mapsto> JStr ''Ok'', ''status'' \<mapsto> JInt 200], 200),
                  s\<lparr>docs := docs s @ [assign_id P (docs s) (b(''path'' \<mapsto> JStr p))],
                    calls := calls s @ [FindOne p, InsertOne (b(''path'' \<mapsto> JStr p))]\<rparr>)))"
proof (intro conjI impI)
  from assms have n: "find (has_path p) (docs s) = None"
    by (rule find_absent)
  then show "createOrUpdateItem P p (Some b) s = createOrOverwriteItem P p (Some b) s"
    by (rule createOrUpdateItem_absent_eq)
  assume "driver_err P (FindOne p) (docs s) = None \<and>
          driver_err P (InsertOne (b(''path'' \<mapsto> JStr p))) (docs s) = None"
  with n show "createOrUpdateItem P p (Some b) s =
      (if id_taken (b(''path'' \<mapsto> JStr p)) (docs s) then
         (Panic (write_err P (InsertOne (b(''path'' \<mapsto> JStr p)))),
          s\<lparr>calls := calls s @ [FindOne p, InsertOne (b(''path'' \<mapsto> JStr p))]\<rparr>)
       else
         (Done ([''message'' \<mapsto> JStr ''Ok'', ''status'' \<mapsto> JInt 200], 200),
          s\<lparr>docs := docs s @ [assign_id P (docs s) (b(''path'' \<mapsto> JStr p))],
            calls := calls s @ [FindOne p, InsertOne (b(''path'' \<mapsto> JStr p))]\<rparr>))"
    by (simp add: createOrUpdateItem_insert makeResponse_def)
qed

theorem createOrUpdateItem_absent_as_put_witness:
  "createOrUpdateItem example_platform ''/c'' (Some [''x'' \<mapsto> JFloat 1]) store0 =
     createOrOverwriteItem example_platform ''/c'' (Some [''x'' \<mapsto> JFloat 1]) store0 \<and>
   createOrUpdateItem example_platform ''/c'' (Some [''x'' \<mapsto> JFloat 1]) store0 =
     (Done ([''message'' \<mapsto> JStr ''Ok'', ''status'' \<mapsto> JInt 200], 200),
      store0\<lparr>docs := docs store0 @
          [[''x'' \<mapsto> JFloat 1, ''path'' \<mapsto> JStr ''/c'', ''_id'' \<mapsto> JObjectID ''id2'']],
        calls := calls store0 @
          [FindOne ''/c'', InsertOne [''x'' \<mapsto> JFloat 1, ''path'' \<mapsto> JStr ''/c'']]\<rparr>)"
proof -
  let ?d = "[''x'' \<mapsto> JFloat 1, ''path'' \<mapsto> JStr ''/c'']"
  have n: "\<forall>d\<in>set (docs store0). \<not> has_path ''/c'' d"
    by (simp add: store0_def has_path_def)
  have ok: "driver_err example_platform (FindOne ''/c'') (docs store0) = None \<and>
            driver_err example_platform (InsertOne ?d) (docs store0) = None"
    by (simp add: example_platform_def)
  have i: "\<not> id_taken ?d (docs store0)"
    by (simp add: id_taken_def)
  have a: "assign_id example_platform (docs store0) ?d =
           [''x'' \<mapsto> JFloat 1, ''path'' \<mapsto> JStr ''/c'', ''_id'' \<mapsto> JObjectID ''id2'']"
    by (simp add: assign_id_def example_platform_def store0_def sprintf_d_def digit_def)
  note t = createOrUpdateItem_absent_as_put [OF n, of example_platform "[''x'' \<mapsto> JFloat 1]"]
  from mp [OF conjunct2 [OF t] ok] i a
  have "createOrUpdateItem example_platform ''/c'' (Some [''x'' \<mapsto> JFloat 1]) store0 =
     (Done ([''message'' \<mapsto> JStr ''Ok'', ''status'' \<mapsto> JInt 200], 200),
      store0\<lparr>docs := docs store0 @
          [[''x'' \<mapsto> JFloat 1, ''path'' \<mapsto> JStr ''/c'', ''_id'' \<mapsto> JObjectID ''id2'']],
        calls := calls store0 @ [FindOne ''/c'', InsertOne ?d]\<rparr>)"
    by (simp only: if_False)
  with conjunct1 [OF t] show ?thesis
    by (intro conjI)
qed

section \<open>PUT twice, then GET\<close>

lemma find_append_new: "find Q xs = None \<Longrightarrow> Q x \<Longrightarrow> find Q (xs @ [x]) = Some x"
  by (induction xs) (auto split: if_splits)

lemma replace_first_fixed: "find Q xs = Some d \<Longrightarrow> f d = d \<Longrightarrow> replace_first Q f xs = xs"
  by (induction xs) (auto split: if_splits)

lemma createOrOverwriteItem_then_find:
  assumes "driver_err P (FindOne p) (docs s) = None"
    and "find (has_path p) (docs s) = None"
    and "driver_err P (InsertOne (b(''path'' \<mapsto> JStr p))) (docs s) = None"
    and "\<not> id_taken (b(''path'' \<mapsto> JStr p)) (docs s)"
  shows "find (has_path p) (docs (snd (createOrOverwriteItem P p (Some b) s))) =
         Some (assign_id P (docs s) (b(''path'' \<mapsto> JStr p)))"
  using assms
  by (simp add: createOrOverwriteItem_insert find_append_new has_path_assign_id has_path_injected)

lemma createOrOverwriteItem_over_find:
  assumes "driver_err P (FindOne p) (docs s) = None"
    and "find (has_path p) (docs s) = Some old"
    and "driver_err P (ReplaceOne p (b(''path'' \<mapsto> JStr p))) (docs s) = None"
    and "\<not> id_changed old (b(''path'' \<mapsto> JStr p))"
  shows "find (has_path p) (docs (snd (createOrOverwriteItem P p (Some b) s))) =
         Some (keep_id (b(''path'' \<mapsto> JStr p)) old)"
  using assms
  by (simp add: createOrOverwriteItem_replace find_replace_first has_path_keep_id has_path_injected)

lemma createOrOverwriteItem_again:
  assumes "driver_err P (FindOne p) (docs s) = None"
    and "driver_err P (ReplaceOne p (b(''path'' \<mapsto> JStr p))) (docs s) = None"
    and "find (has_path p) (docs s) = Some (keep_id (b(''path'' \<mapsto> JStr p)) old)"
    and "\<not> id_changed old (b(''path'' \<mapsto> JStr p))"
  shows "docs (snd (createOrOverwriteItem P p (Some b) s)) = docs s"
proof -
  let ?d = "b(''path'' \<mapsto> JStr p)"
  from assms(4) have n: "\<not> id_changed (keep_id ?d old) ?d"
    by (simp add: id_changed_def keep_id_def)
  from assms(4) have k: "keep_id ?d (keep_id ?d old) = keep_id ?d old"
    by (rule keep_id_same)
  have "replace_first (has_path p) (keep_id ?d) (docs s) = docs s"
    using assms(3) k by (rule replace_first_fixed [of "has_path p" "docs s" _ "keep_id ?d"])
  with assms(1-3) n show ?thesis
    by (simp add: createOrOverwriteItem_replace)
qed

text \<open>
  Claim C7, as amended. With a store that answers and accepts both bodies: after
  \<^verbatim>\<open>createOrOverwriteItem\<close> on \<open>p\<close> with a body \<open>a\<close> and then with a body \<open>b\<close>, \<^verbatim>\<open>getItem\<close> on
  \<open>p\<close> returns, with status 200, the document that is \<open>b\<close> with \<^verbatim>\<open>path\<close> set to \<open>p\<close> on
  every field but \<^verbatim>\<open>_id\<close>, so that no other field comes from \<open>a\<close>. Its \<^verbatim>\<open>_id\<close> is that
  of the document the first call left for \<open>p\<close>: the \<^verbatim>\<open>_id\<close> of the document that was
  there before, or else the one of \<open>a\<close>, or else a new one. Repeating the call with
  \<open>b\<close> changes neither the documents of the collection nor what \<^verbatim>\<open>getItem\<close> returns.
\<close>

theorem put_put_get:
  assumes "\<forall>ds. driver_err P (FindOne p) ds = None"
    and "\<forall>ds. driver_err P (InsertOne (a(''path'' \<mapsto> JStr p))) ds = None"
    and "\<forall>ds. driver_err P (ReplaceOne p (a(''path'' \<mapsto> JStr p))) ds = None"
    and "\<forall>ds. driver_err P (ReplaceOne p (b(''path'' \<mapsto> JStr p))) ds = None"
    and "case find (has_path p) (docs s) of
           None \<Rightarrow> \<not> id_taken (a(''path'' \<mapsto> JStr p)) (docs s)
         | Some old \<Rightarrow> \<not> id_changed old (a(''path'' \<mapsto> JStr p))"
    and "case find (has_path p) (docs (snd (createOrOverwriteItem P p (Some a) s))) of
           None \<Rightarrow> False
         | Some d1 \<Rightarrow> \<not> id_changed d1 (b(''path'' \<mapsto> JStr p))"
  shows "(let s1 = snd (createOrOverwriteItem P p (Some a) s);
              s2 = snd (createOrOverwriteItem P p (Some b) s1);
              s3 = snd (createOrOverwriteItem P p (Some b) s2)
          in \<exists>d1. find (has_path p) (docs s1) = Some d1 \<and>
                  d1 ''_id'' =
                    (case find (has_path p) (docs s) of
                       None \<Rightarrow> (if a ''_id'' = None then Some (JObjectID (fresh_id P (docs s)))
                                 else a ''_id'')
                     | Some old \<Rightarrow> old ''_id'') \<and>
                  find (has_path p) (docs s2) = Some (b(''path'' \<mapsto> JStr p, ''_id'' := d1 ''_id'')) \<and>
                  (decode_err P (b(''path'' \<mapsto> JStr p, ''_id'' := d1 ''_id'')) = None \<longrightarrow>
                     fst (getItem P p s2) =
                       Done (b(''path'' \<mapsto> JStr p, ''_id'' := d1 ''_id''), 200)) \<and>
                  docs s3 = docs s2 \<and>
                  fst (getItem P p s3) = fst (getItem P p s2))"
proof -
  let ?a = "a(''path'' \<mapsto> JStr p)"
  let ?b = "b(''path'' \<mapsto> JStr p)"
  define s1 where "s1 = snd (createOrOverwriteItem P p (Some a) s)"
  define s2 where "s2 = snd (createOrOverwriteItem P p (Some b) s1)"
  define s3 where "s3 = snd (createOrOverwriteItem P p (Some b) s2)"
  define d1 where "d1 = (case find (has_path p) (docs s) of
      None \<Rightarrow> assign_id P (docs s) ?a | Some old \<Rightarrow> keep_id ?a old)"
  have f1: "find (has_path p) (docs s1) = Some d1"
  proof (cases "find (has_path p) (docs s)")
    case None
    with assms(1,2,5) show ?thesis
      unfolding s1_def d1_def by (simp add: createOrOverwriteItem_then_find)
  next
    case (Some old)
    with assms(1,3,5) show ?thesis
      unfolding s1_def d1_def by (simp add: createOrOverwriteItem_over_find)
  qed
  have i1: "d1 ''_id'' =
      (case find (has_path p) (docs s) of
         None \<Rightarrow> (if a ''_id'' = None then Some (JObjectID (fresh_id P (docs s))) else a ''_id'')
       | Some old \<Rightarrow> old ''_id'')"
    unfolding d1_def by (simp add: assign_id_def keep_id_def split: option.splits)
  from assms(6) f1 have n: "\<not> id_changed d1 ?b"
    unfolding s1_def by simp
  have f2: "find (has_path p) (docs s2) = Some (keep_id ?b d1)"
    unfolding s2_def using assms(1,4) f1 n by (simp add: createOrOverwriteItem_over_find)
  have d3: "docs s3 = docs s2"
    unfolding s3_def using assms(1,4) f2 n by (simp add: createOrOverwriteItem_again)
  have g2: "decode_err P (keep_id ?b d1) = None \<longrightarrow>
      fst (getItem P p s2) = Done (keep_id ?b d1, 200)"
    using assms(1) f2 by (simp add: getItem_answered)
  have g3: "fst (getItem P p s3) = fst (getItem P p s2)"
    using assms(1) d3 by (simp add: getItem_answered split: option.splits)
  have k: "keep_id ?b d1 = b(''path'' \<mapsto> JStr p, ''_id'' := d1 ''_id'')"
    by (simp add: keep_id_def)
  from f1 i1 f2 g2 d3 g3 show ?thesis
    unfolding s1_def [symmetric] s2_def [symmetric] s3_def [symmetric] Let_def k
    by (intro exI [of _ d1] conjI)
qed

theorem put_put_get_witness:
  "fst (getItem example_platform ''/a''
         (snd (createOrOverwriteItem example_platform ''/a'' (Some [''x'' \<mapsto> JFloat 2])
           (snd (createOrOverwriteItem example_platform ''/a''
                  (Some [''x'' \<mapsto> JFloat 1, ''z'' \<mapsto> JBool True]) store0))))) =
     Done ([''x'' \<mapsto> JFloat 2, ''path'' \<mapsto> JStr ''/a'', ''_id'' \<mapsto> JObjectID ''a1''], 200)"
proof -
  let ?old = "[''_id'' \<mapsto> JObjectID ''a1'', ''path'' \<mapsto> JStr ''/a'', ''y'' \<mapsto> JNull]"
  let ?a = "[''x'' \<mapsto> JFloat 1, ''z'' \<mapsto> JBool True, ''path'' \<mapsto> JStr ''/a'']"
  let ?b = "[''x'' \<mapsto> JFloat 2, ''path'' \<mapsto> JStr ''/a'']"
  let ?s1 = "snd (createOrOverwriteItem example_platform ''/a''
                  (Some [''x'' \<mapsto> JFloat 1, ''z'' \<mapsto> JBool True]) store0)"
  have 1: "\<forall>ds. driver_err example_platform (FindOne ''/a'') ds = None"
    and 2: "\<forall>ds. driver_err example_platform (InsertOne ?a) ds = None"
    and 3: "\<forall>ds. driver_err example_platform (ReplaceOne ''/a'' ?a) ds = None"
    and 4: "\<forall>ds. driver_err example_platform (ReplaceOne ''/a'' ?b) ds = None"
    by (simp_all add: example_platform_def)
  have f: "find (has_path ''/a'') (docs store0) = Some ?old"
    by (simp add: store0_def has_path_def)
  have na: "\<not> id_changed ?old ?a"
    by (simp add: id_changed_def)
  have 5: "case find (has_path ''/a'') (docs store0) of
             None \<Rightarrow> \<not> id_taken ?a (docs store0)
           | Some old \<Rightarrow> \<not> id_changed old ?a"
    unfolding f using na by simp
  have f1: "find (has_path ''/a'') (docs ?s1) = Some (keep_id ?a ?old)"
    using createOrOverwriteItem_over_find
      [of example_platform "''/a''" store0 ?old "[''x'' \<mapsto> JFloat 1, ''z'' \<mapsto> JBool True]"]
      1 3 f na by simp
  have 6: "case find (has_path ''/a'') (docs ?s1) of
             None \<Rightarrow> False
           | Some d1 \<Rightarrow> \<not> id_changed d1 ?b"
    unfolding f1 by (simp add: id_changed_def)
  from put_put_get [OF 1 2 3 4 5 6, unfolded Let_def] obtain d1 where
    i: "d1 ''_id'' =
          (case find (has_path ''/a'') (docs store0) of
             None \<Rightarrow> (if [''x'' \<mapsto> JFloat 1, ''z'' \<mapsto> JBool True] ''_id'' = None
                       then Some (JObjectID (fresh_id example_platform (docs store0)))
                       else [''x'' \<mapsto> JFloat 1, ''z'' \<mapsto> JBool True] ''_id'')
           | Some old \<Rightarrow> old ''_id'')"
    and g: "decode_err example_platform (?b(''_id'' := d1 ''_id'')) = None \<longrightarrow>
       fst (getItem example_platform ''/a''
             (snd (createOrOverwriteItem example_platform ''/a'' (Some [''x'' \<mapsto> JFloat 2]) ?s1))) =
         Done (?b(''_id'' := d1 ''_id''), 200)"
    by (elim exE conjE)
  from i have "d1 ''_id'' = Some (JObjectID ''a1'')"
    unfolding f by simp
  moreover have "decode_err example_platform (?b(''_id'' := d1 ''_id'')) = None"
    by (simp add: example_platform_def)
  ultimately show ?thesis
    using g by simp
qed

text \<open>
  The claim C7 as stated, that no field of the first body is left, fails: on an empty
  collection, after a first body with the fields \<^verbatim>\<open>_id\<close> and \<^verbatim>\<open>x\<close> and a second body with
  the field \<^verbatim>\<open>x\<close> only, \<^verbatim>\<open>getItem\<close> returns a document that has the \<^verbatim>\<open>_id\<close> of the first
  body.
\<close>

theorem put_put_get_counterexample:
  "fst (getItem example_platform ''/a''
         (snd (createOrOverwriteItem example_platform ''/a'' (Some [''x'' \<mapsto> JFloat 2])
           (snd (createOrOverwriteItem example_platform ''/a''
                  (Some [''_id'' \<mapsto> JFloat 1, ''x'' \<mapsto> JFloat 1]) store_empty))))) =
     Done ([''x'' \<mapsto> JFloat 2, ''path'' \<mapsto> JStr ''/a'', ''_id'' \<mapsto> JFloat 1], 200) \<and>
   [''x'' \<mapsto> JFloat 2, ''path'' \<mapsto> JStr ''/a'', ''_id'' \<mapsto> JFloat 1] ''_id'' \<noteq>
     ([''x'' \<mapsto> JFloat 2](''path'' \<mapsto> JStr ''/a'')) ''_id''"
  by (simp add: createOrOverwriteItem_def getItem_def Let_def getSR_def coll_FindOne_def
      coll_InsertOne_def coll_ReplaceOne_def logged_def example_platform_def store_empty_def
      has_path_def id_taken_def id_changed_def keep_id_def assign_id_def StatusOK_def)

section \<open>The dispatcher\<close>

lemma readBody_bad_json:
  "req_body req = Inr body \<Longrightarrow> body \<noteq> [] \<Longrightarrow> unmarshal P body = Inl err \<Longrightarrow>
   readBody P req = Done (None, Some err)"
  by (simp add: readBody_def jsonToMap_def)

lemma readBody_empty: "req_body req = Inr [] \<Longrightarrow> readBody P req = Done (None, None)"
  by (simp add: readBody_def)

lemma readBody_parsed:
  "req_body req = Inr body \<Longrightarrow> body \<noteq> [] \<Longrightarrow> unmarshal P body = Inr m \<Longrightarrow>
   readBody P req = Done (m, None)"
  by (simp add: readBody_def jsonToMap_def)

text \<open>
  Claim C5. Whatever the method and the path, a request whose body is not empty and
  that \<^verbatim>\<open>json.Unmarshal\<close> rejects leaves the store as it was, its call log included, so
  that no operation on the collection was invoked; and the handler writes the envelope
  \<^verbatim>\<open>{message: "Error reading JSON body", status: 400}\<close> with status 400 (when
  \<^verbatim>\<open>json.Marshal\<close> encodes that envelope).
\<close>

theorem mainHandler_bad_json:
  assumes "req_body req = Inr body"
    and "body \<noteq> []"
    and "unmarshal P body = Inl err"
  shows "snd (mainHandler P req s) = s \<and>
         (marshal_err P [''message'' \<mapsto> JStr ''Error reading JSON body'', ''status'' \<mapsto> JInt 400] = None \<longrightarrow>
            fst (mainHandler P req s) =
              Done \<lparr>content_type = ''application/json'', status_code = 400,
                    json_body = [''message'' \<mapsto> JStr ''Error reading JSON body'',
                                 ''status'' \<mapsto> JInt 400]\<rparr>)"
  using readBody_bad_json [OF assms]
  by (simp add: mainHandler_def makeResponse_def StatusBadRequest_def split: option.splits)

theorem mainHandler_bad_json_witness:
  "mainHandler example_platform \<lparr>req_method = ''GET'', req_uri = ''/a'', req_body = Inr ''{''\<rparr> store0 =
     (Done \<lparr>content_type = ''application/json'', status_code = 400,
            json_body = [''message'' \<mapsto> JStr ''Error reading JSON body'', ''status'' \<mapsto> JInt 400]\<rparr>,
      store0)"
proof -
  let ?req = "\<lparr>req_method = ''GET'', req_uri = ''/a'', req_body = Inr ''{''\<rparr>"
  have 1: "req_body ?req = Inr ''{''" by simp
  have 2: "''{'' \<noteq> []" by simp
  have 3: "unmarshal example_platform ''{'' = Inl ''unexpected end of JSON input''"
    by (simp add: example_platform_def)
  have 4: "marshal_err example_platform
             [''message'' \<mapsto> JStr ''Error reading JSON body'', ''status'' \<mapsto> JInt 400] = None"
    by (simp add: example_platform_def)
  note t = mainHandler_bad_json [OF 1 2 3, of store0]
  from conjunct1 [OF t] mp [OF conjunct2 [OF t] 4] show ?thesis
    by (simp add: prod_eq_iff)
qed

text \<open>
  Claim C6, as amended. A request whose method is none of \<^verbatim>\<open>GET\<close>, \<^verbatim>\<open>POST\<close>, \<^verbatim>\<open>PUT\<close>,
  \<^verbatim>\<open>DELETE\<close>, and whose body is empty or is accepted by \<^verbatim>\<open>json.Unmarshal\<close>, leaves the
  store as it was and is answered with the envelope
  \<^verbatim>\<open>{message: "Unsupported method", status: 400}\<close> and status 400, whatever the path and
  whatever the body decodes to.
\<close>

theorem mainHandler_unsupported_method:
  assumes "req_method req \<notin> {''GET'', ''POST'', ''PUT'', ''DELETE''}"
    and "req_body req = Inr body"
    and "body = [] \<or> (\<exists>m. unmarshal P body = Inr m)"
  shows "snd (mainHandler P req s) = s \<and>
         (marshal_err P [''message'' \<mapsto> JStr ''Unsupported method'', ''status'' \<mapsto> JInt 400] = None \<longrightarrow>
            fst (mainHandler P req s) =
              Done \<lparr>content_type = ''application/json'', status_code = 400,
                    json_body = [''message'' \<mapsto> JStr ''Unsupported method'',
                                 ''status'' \<mapsto> JInt 400]\<rparr>)"
proof -
  from assms(2,3) obtain data where "readBody P req = Done (data, None)"
    using readBody_empty [of req P] readBody_parsed [of req body P] by (cases "body = []") auto
  with assms(1) show ?thesis
    by (simp add: mainHandler_def makeResponse_def StatusBadRequest_def split: option.splits)
qed

theorem mainHandler_unsupported_method_witness:
  "mainHandler example_platform \<lparr>req_method = ''PATCH'', req_uri = ''/a'', req_body = Inr ''{}''\<rparr> store0 =
     (Done \<lparr>content_type = ''application/json'', status_code = 400,
            json_body = [''message'' \<mapsto> JStr ''Unsupported method'', ''status'' \<mapsto> JInt 400]\<rparr>,
      store0)"
proof -
  let ?req = "\<lparr>req_method = ''PATCH'', req_uri = ''/a'', req_body = Inr ''{}''\<rparr>"
  have 1: "req_method ?req \<notin> {''GET'', ''POST'', ''PUT'', ''DELETE''}" by simp
  have 2: "req_body ?req = Inr ''{}''" by simp
  have 3: "''{}'' = [] \<or> (\<exists>m. unmarshal example_platform ''{}'' = Inr m)"
    by (simp add: example_platform_def)
  have 4: "marshal_err example_platform
             [''message'' \<mapsto> JStr ''Unsupported method'', ''status'' \<mapsto> JInt 400] = None"
    by (simp add: example_platform_def)
  note t = mainHandler_unsupported_method [OF 1 2 3, of store0]
  from conjunct1 [OF t] mp [OF conjunct2 [OF t] 4] show ?thesis
    by (simp add: prod_eq_iff)
qed

text \<open>
  The claim C6 as stated, that the answer to an unsupported method does not depend on the
  body, fails: the handler looks at the error of \<^verbatim>\<open>readBody\<close> before it looks at the
  method, so a \<^verbatim>\<open>PATCH\<close> request with the body \<^verbatim>\<open>{\<close> is answered with
  \<^verbatim>\<open>Error reading JSON body\<close>.
\<close>

theorem mainHandler_unsupported_method_counterexample:
  "fst (mainHandler example_platform
          \<lparr>req_method = ''PATCH'', req_uri = ''/a'', req_body = Inr ''{''\<rparr> store0) =
     Done \<lparr>content_type = ''application/json'', status_code = 400,
           json_body = [''message'' \<mapsto> JStr ''Error reading JSON body'', ''status'' \<mapsto> JInt 400]\<rparr> \<and>
   fst (mainHandler example_platform
          \<lparr>req_method = ''PATCH'', req_uri = ''/a'', req_body = Inr ''{''\<rparr> store0) \<noteq>
     Done \<lparr>content_type = ''application/json'', status_code = 400,
           json_body = [''message'' \<mapsto> JStr ''Unsupported method'', ''status'' \<mapsto> JInt 400]\<rparr>"
proof -
  have v: "fst (mainHandler example_platform
          \<lparr>req_method = ''PATCH'', req_uri = ''/a'', req_body = Inr ''{''\<rparr> store0) =
     Done \<lparr>content_type = ''application/json'', status_code = 400,
           json_body = [''message'' \<mapsto> JStr ''Error reading JSON body'', ''status'' \<mapsto> JInt 400]\<rparr>"
    by (simp add: mainHandler_def readBody_def jsonToMap_def example_platform_def
        makeResponse_def StatusBadRequest_def)
  have "[''message'' \<mapsto> JStr ''Error reading JSON body'', ''status'' \<mapsto> JInt 400] ''message'' \<noteq>
        [''message'' \<mapsto> JStr ''Unsupported method'', ''status'' \<mapsto> JInt 400] ''message''"
    by simp
  then have "[''message'' \<mapsto> JStr ''Error reading JSON body'', ''status'' \<mapsto> JInt 400] \<noteq>
        [''message'' \<mapsto> JStr ''Unsupported method'', ''status'' \<mapsto> JInt (400::int)]"
    by metis
  with v show ?thesis by simp
qed

text \<open>
  Claim C9. For a \<^verbatim>\<open>PUT\<close> or \<^verbatim>\<open>POST\<close> request with an empty body, \<^verbatim>\<open>readBody\<close> returns
  the nil map and no error; \<^verbatim>\<open>createOrOverwriteItem\<close> and \<^verbatim>\<open>createOrUpdateItem\<close> then
  panic on the assignment \<^verbatim>\<open>data["path"] = path\<close>, before any call on the collection, and
  the handler ends in that panic: nothing is written.
\<close>

theorem mainHandler_nil_body_panics:
  assumes "req_method req = ''PUT'' \<or> req_method req = ''POST''"
    and "req_body req = Inr []"
  shows "readBody P req = Done (None, None) \<and>
         mainHandler P req s = (Panic ''assignment to entry in nil map'', s) \<and>
         createOrOverwriteItem P (req_uri req) None s = (Panic ''assignment to entry in nil map'', s) \<and>
         createOrUpdateItem P (req_uri req) None s = (Panic ''assignment to entry in nil map'', s)"
  using assms readBody_empty [of req P]
  by (auto simp add: mainHandler_def createOrOverwriteItem_def createOrUpdateItem_def
      nil_map_panic_def)

theorem mainHandler_nil_body_panics_witness:
  "mainHandler example_platform \<lparr>req_method = ''PUT'', req_uri = ''/a'', req_body = Inr ''''\<rparr> store0 =
     (Panic ''assignment to entry in nil map'', store0) \<and>
   mainHandler example_platform \<lparr>req_method = ''POST'', req_uri = ''/a'', req_body = Inr ''''\<rparr> store0 =
     (Panic ''assignment to entry in nil map'', store0)"
proof -
  have 1: "req_method \<lparr>req_method = ''PUT'', req_uri = ''/a'', req_body = Inr ''''\<rparr> = ''PUT'' \<or>
           req_method \<lparr>req_method = ''PUT'', req_uri = ''/a'', req_body = Inr ''''\<rparr> = ''POST''"
    by simp
  have 2: "req_method \<lparr>req_method = ''POST'', req_uri = ''/a'', req_body = Inr ''''\<rparr> = ''PUT'' \<or>
           req_method \<lparr>req_method = ''POST'', req_uri = ''/a'', req_body = Inr ''''\<rparr> = ''POST''"
    by simp
  have 3: "req_body \<lparr>req_method = ''PUT'', req_uri = ''/a'', req_body = Inr ''''\<rparr> = Inr []"
    and 4: "req_body \<lparr>req_method = ''POST'', req_uri = ''/a'', req_body = Inr ''''\<rparr> = Inr []"
    by simp_all
  from conjunct1 [OF conjunct2 [OF mainHandler_nil_body_panics [OF 1 3]]]
    conjunct1 [OF conjunct2 [OF mainHandler_nil_body_panics [OF 2 4]]]
  show ?thesis by (intro conjI)
qed

text \<open>
  The literal \<^verbatim>\<open>null\<close> is a second body that decodes to the nil map without an error, with
  the same end for \<^verbatim>\<open>PUT\<close> and \<^verbatim>\<open>POST\<close>.
\<close>

lemma mainHandler_null_body_panics:
  assumes "req_method req = ''PUT'' \<or> req_method req = ''POST''"
    and "req_body req = Inr body"
    and "body \<noteq> []"
    and "unmarshal P body = Inr None"
  shows "mainHandler P req s = (Panic ''assignment to entry in nil map'', s)"
  using assms(1) readBody_parsed [OF assms(2,3,4)]
  by (auto simp add: mainHandler_def createOrOverwriteItem_def createOrUpdateItem_def
      nil_map_panic_def)

section \<open>At most one document per path\<close>

text \<open>
  The theorems on \<^verbatim>\<open>createOrOverwriteItem\<close> and \<^verbatim>\<open>deleteItem\<close> above take a collection
  with at most one document for the path. \<^verbatim>\<open>createOrOverwriteItem\<close>, \<^verbatim>\<open>deleteItem\<close> and
  \<^verbatim>\<open>getItem\<close> keep a collection that way for every path, whatever the store answers, so
  the condition holds on every collection these calls build from an empty one, one call
  after the other.
\<close>

lemma has_path_same: "has_path p d \<Longrightarrow> has_path q d \<Longrightarrow> p = q"
  by (simp add: has_path_def)

lemma filter_other_path_map:
  assumes "q \<noteq> p" and "\<And>x. has_path p (f x)"
  shows "filter (has_path q) (map (\<lambda>x. if has_path p x then f x else x) xs) =
         filter (has_path q) xs"
proof (induction xs)
  case Nil
  show ?case by simp
next
  case (Cons x xs)
  from assms have nd: "\<not> has_path q (f x)"
    using has_path_same [of p "f x" q] by auto
  show ?case
  proof (cases "has_path p x")
    case True
    with assms have "\<not> has_path q x"
      using has_path_same [of p x q] by auto
    with True nd Cons.IH show ?thesis by simp
  next
    case False
    with Cons.IH show ?thesis by simp
  qed
qed

lemma length_filter_remove_first:
  "length (filter Q (remove_first R xs)) \<le> length (filter Q xs)"
  by (induction xs) auto

lemma createOrOverwriteItem_docs:
  "docs (snd (createOrOverwriteItem P p (Some b) s)) = docs s \<or>
   find (has_path p) (docs s) = None \<and>
     docs (snd (createOrOverwriteItem P p (Some b) s)) =
       docs s @ [assign_id P (docs s) (b(''path'' \<mapsto> JStr p))] \<or>
   docs (snd (createOrOverwriteItem P p (Some b) s)) =
     replace_first (has_path p) (keep_id (b(''path'' \<mapsto> JStr p))) (docs s)"
  by (simp add: createOrOverwriteItem_def Let_def getSR_def coll_FindOne_def coll_InsertOne_def
      coll_ReplaceOne_def split: option.splits)

lemma createOrOverwriteItem_keeps_unique:
  assumes u: "\<forall>q. length (filter (has_path q) (docs s)) \<le> 1"
  shows "length (filter (has_path q) (docs (snd (createOrOverwriteItem P p data s)))) \<le> 1"
proof (cases data)
  case None
  with u show ?thesis by (simp add: createOrOverwriteItem_def)
next
  case (Some b)
  let ?d = "b(''path'' \<mapsto> JStr p)"
  let ?new = "docs (snd (createOrOverwriteItem P p (Some b) s))"
  from createOrOverwriteItem_docs [of P p b s]
  consider (same) "?new = docs s"
    | (ins) "find (has_path p) (docs s) = None" "?new = docs s @ [assign_id P (docs s) ?d]"
    | (rep) "?new = replace_first (has_path p) (keep_id ?d) (docs s)"
    by (elim disjE conjE) simp_all
  then have "length (filter (has_path q) ?new) \<le> 1"
  proof cases
    case same
    with u show ?thesis by simp
  next
    case ins
    show ?thesis
    proof (cases "q = p")
      case True
      from ins(1) have "filter (has_path p) (docs s) = []"
        by (simp add: find_None_filter)
      with ins(2) True show ?thesis by simp
    next
      case False
      have "has_path p (assign_id P (docs s) ?d)"
        by (simp add: has_path_assign_id has_path_injected)
      with False have "\<not> has_path q (assign_id P (docs s) ?d)"
        using has_path_same [of p "assign_id P (docs s) ?d" q] by auto
      with ins(2) u show ?thesis by simp
    qed
  next
    case rep
    from u have m: "replace_first (has_path p) (keep_id ?d) (docs s) =
        map (\<lambda>x. if has_path p x then keep_id ?d x else x) (docs s)"
      by (simp add: replace_first_unique)
    show ?thesis
    proof (cases "q = p")
      case True
      show ?thesis
      proof (cases "find (has_path p) (docs s)")
        case None
        then have "replace_first (has_path p) (keep_id ?d) (docs s) = docs s"
          by (rule replace_first_absent)
        with rep u show ?thesis by simp
      next
        case (Some old)
        then have "filter (has_path p) (replace_first (has_path p) (keep_id ?d) (docs s)) =
            keep_id ?d old # tl (filter (has_path p) (docs s))"
          by (simp add: filter_replace_first has_path_keep_id has_path_injected)
        moreover from u have "tl (filter (has_path p) (docs s)) = []"
          by (simp add: length_le1_tl)
        ultimately show ?thesis using rep True by simp
      qed
    next
      case False
      then have "filter (has_path q) (map (\<lambda>x. if has_path p x then keep_id ?d x else x) (docs s)) =
          filter (has_path q) (docs s)"
        by (simp add: filter_other_path_map has_path_keep_id has_path_injected)
      with rep m u show ?thesis by simp
    qed
  qed
  with Some show ?thesis by simp
qed

lemma deleteItem_keeps_unique:
  assumes "\<forall>q. length (filter (has_path q) (docs s)) \<le> 1"
  shows "length (filter (has_path q) (docs (snd (deleteItem P p s)))) \<le> 1"
proof -
  have "docs (snd (deleteItem P p s)) = docs s \<or>
        docs (snd (deleteItem P p s)) = remove_first (has_path p) (docs s)"
    by (simp add: deleteItem_def coll_DeleteOne_def split: option.splits)
  moreover have "length (filter (has_path q) (remove_first (has_path p) (docs s))) \<le>
      length (filter (has_path q) (docs s))"
    by (rule length_filter_remove_first)
  ultimately show ?thesis
    using assms order_trans by fastforce
qed

lemma getItem_keeps_docs: "docs (snd (getItem P p s)) = docs s"
  by (simp add: getItem_def getSR_def coll_FindOne_def split: option.splits)

end
